theory Spec2Isabelle
  imports Main
begin

section \<open>Python values, callables and exceptions\<close>

text \<open>
  The machine of \<^verbatim>\<open>fsm.py\<close> is dynamically typed: identifiers and callbacks
  arrive as arbitrary objects and are checked with \<^verbatim>\<open>isinstance(x, int)\<close> and
  \<^verbatim>\<open>callable(x)\<close>. Plain data is a \<open>pyval\<close>; a callable is a \<open>pyfun\<close>: a label
  (which identifies the object in the log of calls) and what a call with a given argument
  list does, \<open>None\<close> standing for a call that raises. A callable is assumed not to touch
  the machine it is registered with.
\<close>

datatype pyval = PNone | PBool bool | PInt int | PStr string

datatype pyfun = PyFun (label: string) (call: "pyval list \<Rightarrow> pyval option")

datatype pyobj = Data pyval | Fun pyfun

text \<open>Truth value of an object, as tested by \<^verbatim>\<open>if transition['condition'](v):\<close>.\<close>

fun truthy :: "pyval \<Rightarrow> bool" where
  "truthy PNone = False"
| "truthy (PBool b) = b"
| "truthy (PInt i) = (i \<noteq> 0)"
| "truthy (PStr s) = (s \<noteq> [])"

text \<open>
  \<^verbatim>\<open>isinstance(x, int)\<close>: \<^verbatim>\<open>bool\<close> is a subclass of \<^verbatim>\<open>int\<close>, and
  \<^verbatim>\<open>True == 1\<close>, \<^verbatim>\<open>hash(True) == hash(1)\<close>, so as a dictionary key an instance of
  \<^verbatim>\<open>int\<close> is its integer value.
\<close>

fun as_int :: "pyobj \<Rightarrow> int option" where
  "as_int (Data (PInt i)) = Some i"
| "as_int (Data (PBool b)) = Some (if b then 1 else 0)"
| "as_int _ = None"

definition isinstance_int :: "pyobj \<Rightarrow> bool" where
  "isinstance_int x = (as_int x \<noteq> None)"

fun callable :: "pyobj \<Rightarrow> bool" where
  "callable (Fun f) = True"
| "callable (Data v) = False"

text \<open>\<^verbatim>\<open>a == b\<close> on data, used by the guards of the demo at the end of the file.\<close>

fun py_eq :: "pyval \<Rightarrow> pyval \<Rightarrow> bool" where
  "py_eq PNone PNone = True"
| "py_eq (PStr s) (PStr t) = (s = t)"
| "py_eq (PStr s) _ = False"
| "py_eq _ (PStr t) = False"
| "py_eq PNone _ = False"
| "py_eq _ PNone = False"
| "py_eq a b = (as_int (Data a) = as_int (Data b))"

text \<open>
  The two exception classes of the module, the built-in exceptions the code raises itself
  or through the generator protocol, and \<open>CallbackError\<close> for whatever a callback raises.
\<close>

datatype error =
    StateDeclarationError
  | TransitionDeclarationError
  | KeyError
  | TypeError
  | StopIteration
  | CallbackError

section \<open>The machine\<close>

text \<open>
  \<^verbatim>\<open>self.states\<close> maps an identifier to \<^verbatim>\<open>{'func': ..., 'transitions': [...]}\<close>,
  each transition being \<^verbatim>\<open>{'destiny_state': ..., 'condition': ...}\<close>.
  \<^verbatim>\<open>self.task_gen\<close> is the generator made from \<^verbatim>\<open>task()\<close>: created and not yet
  run, suspended at its \<^verbatim>\<open>yield\<close>, or finished because an exception left its body.
  The field \<open>trace\<close> is not in the source: it logs every call of a callback (label and
  arguments) in the order the machine makes them, so that what the callbacks observe can be
  stated.
\<close>

record transition =
  destiny_state :: int
  condition :: pyfun

record state_entry =
  func :: pyfun
  transitions :: "transition list"

datatype generator = Created | Suspended | Finished

datatype event = Called string "pyval list"

record fsm =
  states :: "int \<rightharpoonup> state_entry"
  current_state :: int
  task_gen :: generator
  trace :: "event list"

text \<open>
  Every operation returns the exception it raised, if any, and the machine afterwards.
\<close>

type_synonym outcome = "error option \<times> fsm"

definition FSM :: fsm where
  "FSM = \<lparr>states = Map.empty, current_state = 0, task_gen = Created, trace = []\<rparr>"

subsection \<open>Declarations\<close>

definition add_state :: "fsm \<Rightarrow> pyobj \<Rightarrow> pyobj \<Rightarrow> outcome" where
  "add_state self state_id callback =
     (if \<not> isinstance_int state_id \<or> \<not> callable callback
      then (Some StateDeclarationError, self)
      else case (as_int state_id, callback) of
        (Some k, Fun f) \<Rightarrow>
          if states self k \<noteq> None
          then (Some StateDeclarationError, self)
          else (None, self\<lparr>states := (states self)(k \<mapsto> \<lparr>func = f, transitions = []\<rparr>)\<rparr>)
      | _ \<Rightarrow> (Some StateDeclarationError, self))"

definition del_state :: "fsm \<Rightarrow> pyobj \<Rightarrow> outcome" where
  "del_state self state_id =
     (case as_int state_id of
        None \<Rightarrow> (Some KeyError, self)
      | Some k \<Rightarrow>
          if states self k = None
          then (Some KeyError, self)
          else (None, self\<lparr>states := (states self)(k := None)\<rparr>))"

definition add_transition :: "fsm \<Rightarrow> pyobj \<Rightarrow> pyobj \<Rightarrow> pyobj \<Rightarrow> outcome" where
  "add_transition self origin_state destiny callback =
     (if \<not> isinstance_int origin_state \<or> \<not> isinstance_int destiny \<or> \<not> callable callback
      then (Some StateDeclarationError, self)
      else case (as_int origin_state, as_int destiny, callback) of
        (Some k, Some d, Fun f) \<Rightarrow>
          (case states self k of
             None \<Rightarrow> (Some KeyError, self)
           | Some st \<Rightarrow>
               (None, self\<lparr>states := (states self)(k \<mapsto>
                  st\<lparr>transitions := transitions st @ [\<lparr>destiny_state = d, condition = f\<rparr>]\<rparr>)\<rparr>))
      | _ \<Rightarrow> (Some StateDeclarationError, self))"

subsection \<open>The generator \<^verbatim>\<open>task\<close>\<close>

text \<open>Calling a callback: the call is logged, and its result (or failure) handed back.\<close>

definition invoke :: "pyfun \<Rightarrow> pyval list \<Rightarrow> fsm \<Rightarrow> pyval option \<times> fsm" where
  "invoke f args self = (call f args, self\<lparr>trace := trace self @ [Called (label f) args]\<rparr>)"

text \<open>
  The \<^verbatim>\<open>for transition in ...\<close> loop of \<^verbatim>\<open>task\<close>, with the local variable
  \<^verbatim>\<open>exec_state_func\<close> threaded through: the first condition returning a truthy value
  sets \<^verbatim>\<open>current_state\<close> and the flag, and breaks.
\<close>

fun for_transitions :: "transition list \<Rightarrow> pyval \<Rightarrow> fsm \<Rightarrow> bool \<Rightarrow> error option \<times> fsm \<times> bool" where
  "for_transitions [] v self exec_state_func = (None, self, exec_state_func)"
| "for_transitions (t # ts) v self exec_state_func =
     (case invoke (condition t) [v] self of
        (None, self') \<Rightarrow> (Some CallbackError, self', exec_state_func)
      | (Some r, self') \<Rightarrow>
          if truthy r
          then (None, self'\<lparr>current_state := destiny_state t\<rparr>, True)
          else for_transitions ts v self' exec_state_func)"

text \<open>
  The head of the \<^verbatim>\<open>while True\<close> loop up to the \<^verbatim>\<open>yield\<close>: when the flag is set,
  look the current state up and call its function. An exception leaving the body finishes
  the generator.
\<close>

definition to_yield :: "fsm \<Rightarrow> bool \<Rightarrow> outcome" where
  "to_yield self exec_state_func =
     (if exec_state_func
      then (case states self (current_state self) of
              None \<Rightarrow> (Some KeyError, self\<lparr>task_gen := Finished\<rparr>)
            | Some st \<Rightarrow>
                (case invoke (func st) [] self of
                   (None, self') \<Rightarrow> (Some CallbackError, self'\<lparr>task_gen := Finished\<rparr>)
                 | (Some r, self') \<Rightarrow> (None, self'\<lparr>task_gen := Suspended\<rparr>)))
      else (None, self\<lparr>task_gen := Suspended\<rparr>))"

text \<open>
  Resuming at the \<^verbatim>\<open>yield\<close> with a value: the flag is \<open>False\<close> there (it is cleared or
  was clear before every \<^verbatim>\<open>yield\<close>), the current state's transitions are looked up and
  scanned, and the loop head runs again.
\<close>

definition resume :: "fsm \<Rightarrow> pyval \<Rightarrow> outcome" where
  "resume self value_to_transition =
     (case states self (current_state self) of
        None \<Rightarrow> (Some KeyError, self\<lparr>task_gen := Finished\<rparr>)
      | Some st \<Rightarrow>
          (case for_transitions (transitions st) value_to_transition self False of
             (Some e, self', exec_state_func) \<Rightarrow> (Some e, self'\<lparr>task_gen := Finished\<rparr>)
           | (None, self', exec_state_func) \<Rightarrow> to_yield self' exec_state_func))"

text \<open>The first run of the body: \<^verbatim>\<open>self.current_state = 0; exec_state_func = True\<close>.\<close>

definition task :: "fsm \<Rightarrow> outcome" where
  "task self = to_yield (self\<lparr>current_state := 0\<rparr>) True"

text \<open>
  \<^verbatim>\<open>generator.send(v)\<close>: a generator that has not run yet accepts only \<^verbatim>\<open>None\<close> and
  then runs from the top; a suspended one resumes with \<open>v\<close>; a finished one raises
  \<^verbatim>\<open>StopIteration\<close>. \<^verbatim>\<open>next(g)\<close> is \<^verbatim>\<open>g.send(None)\<close>.
\<close>

definition gen_send :: "fsm \<Rightarrow> pyval \<Rightarrow> outcome" where
  "gen_send self v =
     (case task_gen self of
        Created \<Rightarrow> if v \<noteq> PNone then (Some TypeError, self) else task self
      | Suspended \<Rightarrow> resume self v
      | Finished \<Rightarrow> (Some StopIteration, self))"

definition start :: "fsm \<Rightarrow> outcome" where
  "start self = gen_send self PNone"

definition send :: "fsm \<Rightarrow> pyval \<Rightarrow> outcome" where
  "send self value_to_send = gen_send self value_to_send"

subsection \<open>Callers\<close>

text \<open>
  A caller is a sequence of calls on one machine. \<open>script\<close> runs them as module-level
  statements do, an exception ending the run; \<open>attempt_all\<close> is a caller that catches
  every exception and goes on.
\<close>

datatype call =
    AddState pyobj pyobj
  | DelState pyobj
  | AddTransition pyobj pyobj pyobj
  | Start
  | Send pyval

fun perform :: "call \<Rightarrow> fsm \<Rightarrow> outcome" where
  "perform (AddState i f) self = add_state self i f"
| "perform (DelState i) self = del_state self i"
| "perform (AddTransition a b g) self = add_transition self a b g"
| "perform Start self = start self"
| "perform (Send v) self = send self v"

fun script :: "call list \<Rightarrow> fsm \<Rightarrow> outcome" where
  "script [] self = (None, self)"
| "script (c # cs) self =
     (case perform c self of
        (None, self') \<Rightarrow> script cs self'
      | (Some e, self') \<Rightarrow> (Some e, self'))"

fun attempt_all :: "call list \<Rightarrow> fsm \<Rightarrow> fsm" where
  "attempt_all [] self = self"
| "attempt_all (c # cs) self = attempt_all cs (snd (perform c self))"

subsection \<open>What a run shows\<close>

text \<open>
  The calls of the conditions of a list of transitions on one value, in list order; a
  condition accepting a value (it returns something truthy) or rejecting it (it returns
  something falsy; a condition that raises does neither); and the calls of state functions
  in a trace, which are the calls without arguments.
\<close>

definition guard_calls :: "transition list \<Rightarrow> pyval \<Rightarrow> event list" where
  "guard_calls ts v = map (\<lambda>t. Called (label (condition t)) [v]) ts"

definition accepts :: "transition \<Rightarrow> pyval \<Rightarrow> bool" where
  "accepts t v = (case call (condition t) [v] of None \<Rightarrow> False | Some r \<Rightarrow> truthy r)"

definition rejects :: "transition \<Rightarrow> pyval \<Rightarrow> bool" where
  "rejects t v = (case call (condition t) [v] of None \<Rightarrow> False | Some r \<Rightarrow> \<not> truthy r)"

definition entry_calls :: "event list \<Rightarrow> event list" where
  "entry_calls es = filter (\<lambda>e. case e of Called l args \<Rightarrow> args = []) es"

subsection \<open>The demo of the module, and other small machines\<close>

text \<open>
  \<^verbatim>\<open>lambda: print('estado1')\<close> takes no argument and returns \<^verbatim>\<open>None\<close>;
  \<^verbatim>\<open>lambda received_number: True if received_number == 2 else False\<close> takes one.
  Either raises \<^verbatim>\<open>TypeError\<close> on another number of arguments. The label stands
  for what the state function prints.
\<close>

definition printer :: "string \<Rightarrow> pyfun" where
  "printer s = PyFun s (\<lambda>args. case args of [] \<Rightarrow> Some PNone | _ \<Rightarrow> None)"

definition equals :: "string \<Rightarrow> pyval \<Rightarrow> pyfun" where
  "equals s k = PyFun s (\<lambda>args. case args of [received_number] \<Rightarrow>
      Some (if py_eq received_number k then PBool True else PBool False) | _ \<Rightarrow> None)"

definition const_guard :: "string \<Rightarrow> bool \<Rightarrow> pyfun" where
  "const_guard s b = PyFun s (\<lambda>args. case args of [x] \<Rightarrow> Some (PBool b) | _ \<Rightarrow> None)"

abbreviation int_obj :: "int \<Rightarrow> pyobj" where
  "int_obj i \<equiv> Data (PInt i)"

text \<open>Lines 167 to 177 of the module; its last line, \<^verbatim>\<open>fsm.send(3)\<close>, is sent apart.\<close>

definition demo_calls :: "call list" where
  "demo_calls =
    [AddState (int_obj 0) (Fun (printer ''A'')),
     AddState (int_obj 1) (Fun (printer ''B'')),
     AddState (int_obj 2) (Fun (printer ''C'')),
     AddTransition (int_obj 0) (int_obj 1) (Fun (equals ''0->1'' (PInt 2))),
     AddTransition (int_obj 1) (int_obj 2) (Fun (equals ''1->2'' (PInt 3))),
     AddTransition (int_obj 2) (int_obj 0) (Fun (equals ''2->0'' (PInt 0))),
     Start, Send (PInt 2), Send (PInt 3), Send (PInt 0)]"

definition demo :: fsm where
  "demo = snd (script demo_calls FSM)"

definition dangling :: fsm where
  "dangling = snd (script
     [AddState (int_obj 0) (Fun (printer ''A'')),
      AddTransition (int_obj 0) (int_obj 5) (Fun (const_guard ''go'' True)),
      Start] FSM)"

definition deleted :: fsm where
  "deleted = snd (script
     [AddState (int_obj 0) (Fun (printer ''A'')),
      AddState (int_obj 1) (Fun (printer ''B'')),
      AddTransition (int_obj 0) (int_obj 0) (Fun (equals ''stay'' (PInt 4))),
      AddTransition (int_obj 0) (int_obj 1) (Fun (equals ''leave'' (PInt 9))),
      DelState (int_obj 1),
      Start] FSM)"

definition priority :: fsm where
  "priority = snd (script
     [AddState (int_obj 0) (Fun (printer ''A'')),
      AddState (int_obj 1) (Fun (printer ''B'')),
      AddState (int_obj 2) (Fun (printer ''C'')),
      AddTransition (int_obj 0) (int_obj 2) (Fun (const_guard ''G1'' False)),
      AddTransition (int_obj 0) (int_obj 1) (Fun (const_guard ''G2'' True)),
      AddTransition (int_obj 0) (int_obj 2) (Fun (const_guard ''G3'' True)),
      Start] FSM)"

definition self_loop :: fsm where
  "self_loop = snd (script
     [AddState (int_obj 0) (Fun (printer ''A'')),
      AddTransition (int_obj 0) (int_obj 0) (Fun (equals ''again'' (PStr ''r''))),
      Start] FSM)"

definition lonely :: fsm where
  "lonely = snd (script [AddState (int_obj 0) (Fun (printer ''A'')), Start] FSM)"

definition unstarted :: fsm where
  "unstarted = snd (script [AddState (int_obj 0) (Fun (printer ''A''))] FSM)"

section \<open>The transition scan\<close>

lemma for_transitions_rejects:
  "list_all (\<lambda>t. rejects t v) ts \<Longrightarrow>
   for_transitions ts v m ex = (None, m\<lparr>trace := trace m @ guard_calls ts v\<rparr>, ex)"
  by (induction ts arbitrary: m)
     (auto simp: invoke_def rejects_def guard_calls_def split: option.splits)

lemma for_transitions_accepts:
  "list_all (\<lambda>t. rejects t v) pre \<Longrightarrow> accepts t v \<Longrightarrow>
   for_transitions (pre @ t # post) v m ex =
     (None, m\<lparr>current_state := destiny_state t,
               trace := trace m @ guard_calls (pre @ [t]) v\<rparr>, True)"
  by (induction pre arbitrary: m)
     (auto simp: invoke_def rejects_def accepts_def guard_calls_def split: option.splits)

lemma entry_calls_append: "entry_calls (xs @ ys) = entry_calls xs @ entry_calls ys"
  by (simp add: entry_calls_def)

lemma entry_calls_guard_calls: "entry_calls (guard_calls ts v) = []"
  by (induction ts) (simp_all add: entry_calls_def guard_calls_def)

lemma entry_calls_single: "entry_calls [Called l []] = [Called l []]"
  by (simp add: entry_calls_def)

lemma send_suspended: "task_gen m = Suspended \<Longrightarrow> send m v = resume m v"
  by (simp add: send_def gen_send_def)

lemma resume_no_match:
  assumes "task_gen m = Suspended" "states m (current_state m) = Some st"
    "list_all (\<lambda>t. rejects t v) (transitions st)"
  shows "resume m v = (None, m\<lparr>trace := trace m @ guard_calls (transitions st) v\<rparr>)"
  using assms by (simp add: resume_def for_transitions_rejects to_yield_def)

lemma resume_match:
  assumes "states m (current_state m) = Some st"
    "transitions st = pre @ t # post"
    "list_all (\<lambda>t. rejects t v) pre" "accepts t v"
  shows "resume m v =
     to_yield (m\<lparr>current_state := destiny_state t,
                  trace := trace m @ guard_calls (pre @ [t]) v\<rparr>) True"
  using assms by (simp add: resume_def for_transitions_accepts)

section \<open>A finished generator\<close>

lemma to_yield_error:
  "fst (to_yield m ex) = Some e \<Longrightarrow> task_gen (snd (to_yield m ex)) = Finished"
  by (auto simp: to_yield_def invoke_def split: if_splits option.splits)

lemma resume_error:
  "fst (resume m v) = Some e \<Longrightarrow> task_gen (snd (resume m v)) = Finished"
  by (auto simp: resume_def to_yield_error split: option.splits prod.splits)

lemma gen_send_KeyError:
  "fst (gen_send m v) = Some KeyError \<Longrightarrow> task_gen (snd (gen_send m v)) = Finished"
  by (cases "task_gen m")
     (auto simp: gen_send_def task_def to_yield_error resume_error split: if_splits)

lemma perform_finished:
  assumes "task_gen m = Finished"
  shows "task_gen (snd (perform c m)) = Finished
     \<and> trace (snd (perform c m)) = trace m
     \<and> current_state (snd (perform c m)) = current_state m"
  using assms
  by (cases c)
     (auto simp: add_state_def del_state_def add_transition_def start_def send_def gen_send_def
        split: option.splits pyobj.splits)

lemma attempt_all_finished:
  "task_gen m = Finished \<Longrightarrow>
   task_gen (attempt_all cs m) = Finished \<and> trace (attempt_all cs m) = trace m
   \<and> current_state (attempt_all cs m) = current_state m"
proof (induction cs arbitrary: m)
  case Nil
  then show ?case by simp
next
  case (Cons c cs)
  from perform_finished[OF Cons.prems, of c] Cons.IH[of "snd (perform c m)"]
  show ?case by simp
qed

lemma finished_stops:
  "task_gen m = Finished \<Longrightarrow>
   start m = (Some StopIteration, m) \<and> send m w = (Some StopIteration, m)"
  by (simp add: start_def send_def gen_send_def)

section \<open>The small machines, evaluated\<close>

lemmas eval_defs = demo_calls_def FSM_def add_state_def add_transition_def del_state_def
  start_def send_def gen_send_def task_def to_yield_def resume_def invoke_def
  isinstance_int_def printer_def equals_def const_guard_def

lemma demo_script: "script demo_calls FSM = (None,
   \<lparr>states = [0 \<mapsto> \<lparr>func = printer ''A'',
                transitions = [\<lparr>destiny_state = 1, condition = equals ''0->1'' (PInt 2)\<rparr>]\<rparr>,
              1 \<mapsto> \<lparr>func = printer ''B'',
                transitions = [\<lparr>destiny_state = 2, condition = equals ''1->2'' (PInt 3)\<rparr>]\<rparr>,
              2 \<mapsto> \<lparr>func = printer ''C'',
                transitions = [\<lparr>destiny_state = 0, condition = equals ''2->0'' (PInt 0)\<rparr>]\<rparr>],
     current_state = 0, task_gen = Suspended,
     trace = [Called ''A'' [], Called ''0->1'' [PInt 2], Called ''B'' [],
              Called ''1->2'' [PInt 3], Called ''C'' [], Called ''2->0'' [PInt 0],
              Called ''A'' []]\<rparr>)"
  by (simp add: eval_defs fun_upd_twist)

lemma dangling_eval: "dangling =
   \<lparr>states = [0 \<mapsto> \<lparr>func = printer ''A'',
        transitions = [\<lparr>destiny_state = 5, condition = const_guard ''go'' True\<rparr>]\<rparr>],
    current_state = 0, task_gen = Suspended, trace = [Called ''A'' []]\<rparr>"
  by (simp add: dangling_def eval_defs)

lemma deleted_eval: "deleted =
   \<lparr>states = [0 \<mapsto> \<lparr>func = printer ''A'',
        transitions = [\<lparr>destiny_state = 0, condition = equals ''stay'' (PInt 4)\<rparr>,
                       \<lparr>destiny_state = 1, condition = equals ''leave'' (PInt 9)\<rparr>]\<rparr>],
    current_state = 0, task_gen = Suspended, trace = [Called ''A'' []]\<rparr>"
  by (simp add: deleted_def eval_defs fun_upd_twist)

lemma priority_eval: "priority =
   \<lparr>states = [0 \<mapsto> \<lparr>func = printer ''A'',
        transitions = [\<lparr>destiny_state = 2, condition = const_guard ''G1'' False\<rparr>,
                       \<lparr>destiny_state = 1, condition = const_guard ''G2'' True\<rparr>,
                       \<lparr>destiny_state = 2, condition = const_guard ''G3'' True\<rparr>]\<rparr>,
              1 \<mapsto> \<lparr>func = printer ''B'', transitions = []\<rparr>,
              2 \<mapsto> \<lparr>func = printer ''C'', transitions = []\<rparr>],
    current_state = 0, task_gen = Suspended, trace = [Called ''A'' []]\<rparr>"
  by (simp add: priority_def eval_defs fun_upd_twist)

lemma self_loop_eval: "self_loop =
   \<lparr>states = [0 \<mapsto> \<lparr>func = printer ''A'',
        transitions = [\<lparr>destiny_state = 0, condition = equals ''again'' (PStr ''r'')\<rparr>]\<rparr>],
    current_state = 0, task_gen = Suspended, trace = [Called ''A'' []]\<rparr>"
  by (simp add: self_loop_def eval_defs)

lemma lonely_eval: "lonely =
   \<lparr>states = [0 \<mapsto> \<lparr>func = printer ''A'', transitions = []\<rparr>],
    current_state = 0, task_gen = Suspended, trace = [Called ''A'' []]\<rparr>"
  by (simp add: lonely_def eval_defs)

lemma unstarted_eval: "unstarted =
   \<lparr>states = [0 \<mapsto> \<lparr>func = printer ''A'', transitions = []\<rparr>],
    current_state = 0, task_gen = Created, trace = []\<rparr>"
  by (simp add: unstarted_def eval_defs)

section \<open>Sending to a machine whose transition leads nowhere\<close>

text \<open>
  C1, as the code has it. The machine is suspended in a registered state, the value is
  rejected by the conditions before \<open>t\<close> and accepted by \<open>t\<close>, and the destination of
  \<open>t\<close> is not registered. Then \<open>send\<close> raises \<^verbatim>\<open>KeyError\<close>, and the current-state
  identifier has been set to the unregistered destination: line 159 assigns it before line
  154 looks the state up. The generator is finished.
\<close>

theorem send_dangling:
  assumes "task_gen m = Suspended" "states m (current_state m) = Some st"
    "transitions st = pre @ t # post"
    "list_all (\<lambda>t. rejects t v) pre" "accepts t v"
    "states m (destiny_state t) = None"
  shows "send m v = (Some KeyError, m\<lparr>current_state := destiny_state t, task_gen := Finished,
            trace := trace m @ guard_calls (pre @ [t]) v\<rparr>)"
  using assms
  by (simp add: send_suspended resume_match to_yield_def)

theorem send_dangling_witness:
  "send deleted (PInt 9) = (Some KeyError,
     deleted\<lparr>current_state := 1, task_gen := Finished,
       trace := [Called ''A'' [], Called ''stay'' [PInt 9], Called ''leave'' [PInt 9]]\<rparr>)"
  using send_dangling[of deleted
      "\<lparr>func = printer ''A'',
        transitions = [\<lparr>destiny_state = 0, condition = equals ''stay'' (PInt 4)\<rparr>,
                       \<lparr>destiny_state = 1, condition = equals ''leave'' (PInt 9)\<rparr>]\<rparr>"
      "[\<lparr>destiny_state = 0, condition = equals ''stay'' (PInt 4)\<rparr>]"
      "\<lparr>destiny_state = 1, condition = equals ''leave'' (PInt 9)\<rparr>" "[]" "PInt 9"]
  by (simp add: deleted_eval rejects_def accepts_def guard_calls_def equals_def)

text \<open>
  C1 as stated fails: with only state 0 registered and a transition from 0 to 5, a matching
  input raises \<^verbatim>\<open>KeyError\<close> and leaves \<^verbatim>\<open>current_state == 5\<close>, not 0.
\<close>

theorem send_dangling_counterexample:
  "fst (send dangling (PInt 1)) = Some KeyError
   \<and> current_state dangling = 0
   \<and> current_state (snd (send dangling (PInt 1))) = 5
   \<and> current_state (snd (send dangling (PInt 1))) \<noteq> current_state dangling"
  by (simp add: dangling_eval eval_defs)

section \<open>Malformed transition declarations\<close>

text \<open>
  C2. The module declares \<^verbatim>\<open>TransitionDeclarationError\<close> (lines 10 and 11), the
  error the claim expects of a malformed transition declaration, and raises it nowhere:
  when the origin or the destination is not an instance of \<^verbatim>\<open>int\<close>, or the guard is
  not callable, \<open>add_transition\<close> raises \<^verbatim>\<open>StateDeclarationError\<close> (line 121, with
  the message \<^verbatim>\<open>Error on transition declaration\<close>). The other half of the claim
  holds: the machine, with every transition list, is as it was.
\<close>

theorem add_transition_invalid:
  assumes "\<not> isinstance_int origin \<or> \<not> isinstance_int dest \<or> \<not> callable guard"
  shows "add_transition m origin dest guard = (Some StateDeclarationError, m)"
  using assms by (auto simp: add_transition_def)

text \<open>
  The calls \<^verbatim>\<open>add_transition('0', 1, guard)\<close> and
  \<^verbatim>\<open>add_transition(0, 1, 'guard')\<close>: the error is \<^verbatim>\<open>StateDeclarationError\<close>,
  not \<^verbatim>\<open>TransitionDeclarationError\<close>.
\<close>

theorem add_transition_invalid_witness:
  "\<not> isinstance_int (Data (PStr ''0''))
   \<and> add_transition lonely (Data (PStr ''0'')) (int_obj 1) (Fun (const_guard ''g'' True))
       = (Some StateDeclarationError, lonely)
   \<and> fst (add_transition lonely (Data (PStr ''0'')) (int_obj 1) (Fun (const_guard ''g'' True)))
       \<noteq> Some TransitionDeclarationError
   \<and> \<not> callable (Data (PStr ''guard''))
   \<and> add_transition priority (int_obj 0) (int_obj 1) (Data (PStr ''guard''))
       = (Some StateDeclarationError, priority)"
  using add_transition_invalid[of "Data (PStr ''0'')" "int_obj 1" "Fun (const_guard ''g'' True)" lonely]
    add_transition_invalid[of "int_obj 0" "int_obj 1" "Data (PStr ''guard'')" priority]
  by (simp add: isinstance_int_def)

section \<open>First match wins\<close>

text \<open>
  C3. The machine is suspended in a registered state whose transitions are
  \<open>pre @ t # post\<close>; the value is rejected by every condition of \<open>pre\<close> and accepted by
  that of \<open>t\<close>. Then after \<open>send\<close> the current-state identifier is the destination of
  \<open>t\<close>, and the calls made are exactly those of the conditions of \<open>pre\<close> and \<open>t\<close>, in
  registration order, followed by the call of the destination's function when the
  destination is registered: no condition of \<open>post\<close> is called.
\<close>

theorem send_first_match:
  assumes "task_gen m = Suspended" "states m (current_state m) = Some st"
    "transitions st = pre @ t # post"
    "list_all (\<lambda>t. rejects t v) pre" "accepts t v"
  shows "current_state (snd (send m v)) = destiny_state t
    \<and> trace (snd (send m v)) = trace m @ guard_calls (pre @ [t]) v @
        (case states m (destiny_state t) of
           None \<Rightarrow> []
         | Some d \<Rightarrow> [Called (label (func d)) []])"
  using assms
  by (simp add: send_suspended resume_match to_yield_def invoke_def split: option.splits)

theorem send_first_match_witness:
  "current_state (snd (send priority (PInt 7))) = 1
   \<and> trace (snd (send priority (PInt 7))) =
       [Called ''A'' [], Called ''G1'' [PInt 7], Called ''G2'' [PInt 7], Called ''B'' []]"
  using send_first_match[of priority
      "\<lparr>func = printer ''A'',
        transitions = [\<lparr>destiny_state = 2, condition = const_guard ''G1'' False\<rparr>,
                       \<lparr>destiny_state = 1, condition = const_guard ''G2'' True\<rparr>,
                       \<lparr>destiny_state = 2, condition = const_guard ''G3'' True\<rparr>]\<rparr>"
      "[\<lparr>destiny_state = 2, condition = const_guard ''G1'' False\<rparr>]"
      "\<lparr>destiny_state = 1, condition = const_guard ''G2'' True\<rparr>"
      "[\<lparr>destiny_state = 2, condition = const_guard ''G3'' True\<rparr>]" "PInt 7"]
  by (simp add: priority_eval rejects_def accepts_def guard_calls_def const_guard_def printer_def)

section \<open>An input that no condition accepts\<close>

text \<open>
  C4. The machine is suspended in a registered state and every condition of that state
  rejects the value. Then \<open>send\<close> returns without an exception; the machine differs only
  by the logged calls of those conditions, so the current-state identifier is unchanged
  and no state function has been called.
\<close>

theorem send_no_match:
  assumes "task_gen m = Suspended" "states m (current_state m) = Some st"
    "list_all (\<lambda>t. rejects t v) (transitions st)"
  shows "send m v = (None, m\<lparr>trace := trace m @ guard_calls (transitions st) v\<rparr>)
    \<and> current_state (snd (send m v)) = current_state m
    \<and> entry_calls (trace (snd (send m v))) = entry_calls (trace m)"
  using assms
  by (simp add: send_suspended resume_no_match entry_calls_append entry_calls_guard_calls)

theorem send_no_match_witness:
  "send demo (PStr ''x'') = (None, demo\<lparr>trace := trace demo @ [Called ''0->1'' [PStr ''x'']]\<rparr>)
   \<and> current_state (snd (send demo (PStr ''x''))) = 0"
  using send_no_match[of demo
      "\<lparr>func = printer ''A'',
        transitions = [\<lparr>destiny_state = 1, condition = equals ''0->1'' (PInt 2)\<rparr>]\<rparr>"
      "PStr ''x''"]
  by (simp add: demo_def demo_script rejects_def guard_calls_def equals_def)

section \<open>One call of the state function per entry\<close>

text \<open>
  C5. The machine is suspended in a registered state, the transition \<open>t\<close> is the first
  whose condition accepts the value, and its destination is registered (it may be the
  state the machine is in). Then during \<open>send\<close> the destination's function is called
  exactly once, after the conditions: the calls of state functions in the trace grow by
  that one call. When the function returns, \<open>send\<close> returns and the generator is
  suspended again.
\<close>

theorem send_entry_once:
  assumes "task_gen m = Suspended" "states m (current_state m) = Some st"
    "transitions st = pre @ t # post"
    "list_all (\<lambda>t. rejects t v) pre" "accepts t v"
    "states m (destiny_state t) = Some d"
  shows "trace (snd (send m v)) = trace m @ guard_calls (pre @ [t]) v @ [Called (label (func d)) []]
    \<and> entry_calls (trace (snd (send m v))) = entry_calls (trace m) @ [Called (label (func d)) []]
    \<and> current_state (snd (send m v)) = destiny_state t
    \<and> (call (func d) [] \<noteq> None \<longrightarrow>
          fst (send m v) = None \<and> task_gen (snd (send m v)) = Suspended)"
  using assms
  by (auto simp add: send_suspended resume_match to_yield_def invoke_def
      entry_calls_append entry_calls_guard_calls entry_calls_single split: option.splits)

theorem send_entry_once_witness:
  "trace (snd (send self_loop (PStr ''r''))) =
      [Called ''A'' [], Called ''again'' [PStr ''r''], Called ''A'' []]
   \<and> entry_calls (trace self_loop) = [Called ''A'' []]
   \<and> entry_calls (trace (snd (send self_loop (PStr ''r'')))) = [Called ''A'' [], Called ''A'' []]
   \<and> current_state (snd (send self_loop (PStr ''r''))) = 0
   \<and> fst (send self_loop (PStr ''r'')) = None"
  using send_entry_once[of self_loop
      "\<lparr>func = printer ''A'',
        transitions = [\<lparr>destiny_state = 0, condition = equals ''again'' (PStr ''r'')\<rparr>]\<rparr>"
      "[]" "\<lparr>destiny_state = 0, condition = equals ''again'' (PStr ''r'')\<rparr>" "[]" "PStr ''r''"
      "\<lparr>func = printer ''A'',
        transitions = [\<lparr>destiny_state = 0, condition = equals ''again'' (PStr ''r'')\<rparr>]\<rparr>"]
  by (simp add: self_loop_eval accepts_def guard_calls_def equals_def printer_def entry_calls_def)

section \<open>Declarations that fail change nothing\<close>

text \<open>
  C6. \<open>add_state\<close> with an identifier that is already a key of the registry raises
  \<^verbatim>\<open>StateDeclarationError\<close> and returns the machine as it was, so the state registered
  first keeps its function and its transitions. And whenever \<open>add_state\<close>,
  \<open>add_transition\<close> or \<open>del_state\<close> raises, the machine is as it was.
\<close>

theorem add_state_duplicate:
  "(as_int state_id = Some k \<and> states m k \<noteq> None \<longrightarrow>
      add_state m state_id callback = (Some StateDeclarationError, m))
   \<and> (fst (add_state m state_id callback) \<noteq> None \<longrightarrow> snd (add_state m state_id callback) = m)
   \<and> (fst (add_transition m origin dest guard) \<noteq> None \<longrightarrow>
        snd (add_transition m origin dest guard) = m)
   \<and> (fst (del_state m state_id) \<noteq> None \<longrightarrow> snd (del_state m state_id) = m)"
  by (auto simp: add_state_def add_transition_def del_state_def isinstance_int_def
      split: option.splits pyobj.splits)

theorem add_state_duplicate_witness:
  "add_state demo (Data (PBool True)) (Fun (printer ''Z'')) = (Some StateDeclarationError, demo)
   \<and> snd (add_transition demo (int_obj 7) (int_obj 0) (Fun (const_guard ''g'' True))) = demo
   \<and> snd (del_state demo (int_obj 7)) = demo"
  using add_state_duplicate[of "Data (PBool True)" 1 demo "Fun (printer ''Z'')"
      "int_obj 7" "int_obj 0" "Fun (const_guard ''g'' True)"]
    add_state_duplicate[of "int_obj 7" 7 demo "Fun (printer ''Z'')"
      "int_obj 7" "int_obj 0" "Fun (const_guard ''g'' True)"]
  by (simp add: demo_def demo_script add_transition_def del_state_def isinstance_int_def)

section \<open>Forward references\<close>

text \<open>
  C7. On every machine, started or not, whose registry holds the origin \<open>k\<close>,
  \<open>add_transition\<close> from \<open>k\<close> to \<open>d\<close> succeeds and appends the transition, whether
  \<open>d\<close> is registered or not. When \<open>d\<close> is not registered, registering it afterwards
  succeeds, and a value that the older conditions of \<open>k\<close> reject and the new one accepts
  then moves the machine to \<open>d\<close> and calls the function of \<open>d\<close> once, \<open>send\<close>
  returning without an exception when that function returns. This holds for a machine
  already suspended in \<open>k\<close>, and for a machine declared before it runs: there \<open>k\<close> is
  0, \<open>start\<close> succeeds (the function of state 0 returning), and the \<open>send\<close> after it
  fires the transition.
\<close>

theorem forward_reference:
  assumes "as_int origin = Some k" "as_int dest = Some d" "states m k = Some st"
  shows "add_transition m origin dest (Fun g) =
      (None, m\<lparr>states := (states m)(k \<mapsto>
          st\<lparr>transitions := transitions st @ [\<lparr>destiny_state = d, condition = g\<rparr>]\<rparr>)\<rparr>)
    \<and> (let m1 = snd (add_transition m origin dest (Fun g));
            m2 = snd (add_state m1 dest (Fun f)) in
       (states m d = None \<longrightarrow>
          add_state m1 dest (Fun f) =
            (None, m1\<lparr>states := (states m1)(d \<mapsto> \<lparr>func = f, transitions = []\<rparr>)\<rparr>))
     \<and> (states m d = None \<and> list_all (\<lambda>t. rejects t v) (transitions st)
          \<and> accepts \<lparr>destiny_state = d, condition = g\<rparr> v
          \<and> task_gen m = Suspended \<and> current_state m = k \<longrightarrow>
            current_state (snd (send m2 v)) = d
          \<and> trace (snd (send m2 v)) =
              trace m @ guard_calls (transitions st) v @ [Called (label g) [v], Called (label f) []]
          \<and> (call f [] \<noteq> None \<longrightarrow>
                fst (send m2 v) = None \<and> task_gen (snd (send m2 v)) = Suspended))
     \<and> (states m d = None \<and> list_all (\<lambda>t. rejects t v) (transitions st)
          \<and> accepts \<lparr>destiny_state = d, condition = g\<rparr> v
          \<and> task_gen m = Created \<and> k = 0 \<and> call (func st) [] \<noteq> None \<longrightarrow>
            start m2 = (None, m2\<lparr>current_state := 0, task_gen := Suspended,
                                  trace := trace m @ [Called (label (func st)) []]\<rparr>)
          \<and> current_state (snd (send (snd (start m2)) v)) = d
          \<and> trace (snd (send (snd (start m2)) v)) =
              trace m @ [Called (label (func st)) []] @ guard_calls (transitions st) v
                @ [Called (label g) [v], Called (label f) []]
          \<and> (call f [] \<noteq> None \<longrightarrow>
                fst (send (snd (start m2)) v) = None
                \<and> task_gen (snd (send (snd (start m2)) v)) = Suspended)))"
proof -
  let ?t = "\<lparr>destiny_state = d, condition = g\<rparr>"
  let ?st = "st\<lparr>transitions := transitions st @ [?t]\<rparr>"
  let ?m1 = "m\<lparr>states := (states m)(k \<mapsto> ?st)\<rparr>"
  let ?m2 = "?m1\<lparr>states := (states ?m1)(d \<mapsto> \<lparr>func = f, transitions = []\<rparr>)\<rparr>"
  have a1: "add_transition m origin dest (Fun g) = (None, ?m1)"
    using assms by (simp add: add_transition_def isinstance_int_def)
  have a2: "add_state ?m1 dest (Fun f) = (None, ?m2)" if "states m d = None"
    using assms that by (auto simp add: add_state_def isinstance_int_def)
  have fire: "current_state (snd (send n v)) = d
      \<and> trace (snd (send n v)) =
          trace n @ guard_calls (transitions st) v @ [Called (label g) [v], Called (label f) []]
      \<and> (call f [] \<noteq> None \<longrightarrow> fst (send n v) = None \<and> task_gen (snd (send n v)) = Suspended)"
    if n: "states n = states ?m2" "task_gen n = Suspended" "current_state n = k"
      and d: "states m d = None"
      and rej: "list_all (\<lambda>t. rejects t v) (transitions st)" and acc: "accepts ?t v"
    for n
  proof -
    from d assms have kd: "k \<noteq> d" by auto
    have cur: "states n (current_state n) = Some ?st"
      using n kd by simp
    have r: "resume n v = to_yield (n\<lparr>current_state := destiny_state ?t,
          trace := trace n @ guard_calls (transitions st @ [?t]) v\<rparr>) True"
      using rej acc by (intro resume_match[OF cur, where post="[]"]) simp_all
    show ?thesis
      unfolding send_suspended[OF n(2)] r
      using kd n by (auto simp: to_yield_def invoke_def guard_calls_def split: option.splits)
  qed
  have st2: "start ?m2 = (None, ?m2\<lparr>current_state := 0, task_gen := Suspended,
                                  trace := trace m @ [Called (label (func st)) []]\<rparr>)"
    if "states m d = None" "task_gen m = Created" "k = 0" "call (func st) [] \<noteq> None"
  proof -
    from that assms have kd: "k \<noteq> d" by auto
    show ?thesis
      using that assms kd
      by (auto simp: start_def gen_send_def task_def to_yield_def invoke_def)
  qed
  show ?thesis
    unfolding a1 snd_conv Let_def
  proof (intro conjI impI)
    show "(None, ?m1) = (None, ?m1)" by simp
  next
    assume "states m d = None"
    then show "add_state ?m1 dest (Fun f) = (None, ?m1\<lparr>states := (states ?m1)(d \<mapsto> \<lparr>func = f, transitions = []\<rparr>)\<rparr>)"
      by (rule a2)
  next
    assume h: "states m d = None \<and> list_all (\<lambda>t. rejects t v) (transitions st)
          \<and> accepts ?t v \<and> task_gen m = Suspended \<and> current_state m = k"
    then have "states m d = None" by simp
    from a2[OF this] have e: "snd (add_state ?m1 dest (Fun f)) = ?m2" by simp
    from h fire[of ?m2]
    show "current_state (snd (send (snd (add_state ?m1 dest (Fun f))) v)) = d"
      and "trace (snd (send (snd (add_state ?m1 dest (Fun f))) v)) =
        trace m @ guard_calls (transitions st) v @ [Called (label g) [v], Called (label f) []]"
      unfolding e by simp_all
    assume "call f [] \<noteq> None"
    with h fire[of ?m2]
    show "fst (send (snd (add_state ?m1 dest (Fun f))) v) = None"
      and "task_gen (snd (send (snd (add_state ?m1 dest (Fun f))) v)) = Suspended"
      unfolding e by simp_all
  next
    assume h: "states m d = None \<and> list_all (\<lambda>t. rejects t v) (transitions st)
          \<and> accepts ?t v \<and> task_gen m = Created \<and> k = 0 \<and> call (func st) [] \<noteq> None"
    then have "states m d = None" by simp
    from a2[OF this] have e: "snd (add_state ?m1 dest (Fun f)) = ?m2" by simp
    let ?n = "?m2\<lparr>current_state := 0, task_gen := Suspended,
                                  trace := trace m @ [Called (label (func st)) []]\<rparr>"
    from h have s: "start ?m2 = (None, ?n)" by (intro st2) simp_all
    show "start (snd (add_state ?m1 dest (Fun f))) =
        (None, snd (add_state ?m1 dest (Fun f))\<lparr>current_state := 0, task_gen := Suspended,
                                  trace := trace m @ [Called (label (func st)) []]\<rparr>)"
      unfolding e by (rule s)
    from h fire[of ?n]
    show "current_state (snd (send (snd (start (snd (add_state ?m1 dest (Fun f))))) v)) = d"
      and "trace (snd (send (snd (start (snd (add_state ?m1 dest (Fun f))))) v)) =
        trace m @ [Called (label (func st)) []] @ guard_calls (transitions st) v
                @ [Called (label g) [v], Called (label f) []]"
      unfolding e s snd_conv by simp_all
    assume "call f [] \<noteq> None"
    with h fire[of ?n]
    show "fst (send (snd (start (snd (add_state ?m1 dest (Fun f))))) v) = None"
      and "task_gen (snd (send (snd (start (snd (add_state ?m1 dest (Fun f))))) v)) = Suspended"
      unfolding e s snd_conv by simp_all
  qed
qed

text \<open>
  The build-phase order of the module's usage (declare the transition from 0 to 5,
  register 5, start, send), and the same declarations on a machine already started.
\<close>

theorem forward_reference_witness:
  "task_gen unstarted = Created \<and> states unstarted 5 = None
   \<and> fst (add_transition unstarted (int_obj 0) (int_obj 5) (Fun (equals ''go'' (PInt 1)))) = None
   \<and> (let m2 = snd (add_state (snd (add_transition unstarted (int_obj 0) (int_obj 5)
                  (Fun (equals ''go'' (PInt 1))))) (int_obj 5) (Fun (printer ''F''))) in
        fst (start m2) = None
        \<and> send (snd (start m2)) (PInt 1) = (None, m2\<lparr>current_state := 5, task_gen := Suspended,
             trace := [Called ''A'' [], Called ''go'' [PInt 1], Called ''F'' []]\<rparr>))
   \<and> task_gen lonely = Suspended \<and> states lonely 5 = None
   \<and> fst (add_transition lonely (int_obj 0) (int_obj 5) (Fun (equals ''go'' (PInt 1)))) = None
   \<and> (let m2 = snd (add_state (snd (add_transition lonely (int_obj 0) (int_obj 5)
                  (Fun (equals ''go'' (PInt 1))))) (int_obj 5) (Fun (printer ''F''))) in
        send m2 (PInt 1) = (None, m2\<lparr>current_state := 5,
          trace := [Called ''A'' [], Called ''go'' [PInt 1], Called ''F'' []]\<rparr>))"
  using forward_reference[of "int_obj 0" 0 "int_obj 5" 5 unstarted
      "\<lparr>func = printer ''A'', transitions = []\<rparr>" "equals ''go'' (PInt 1)" "printer ''F''" "PInt 1"]
    forward_reference[of "int_obj 0" 0 "int_obj 5" 5 lonely
      "\<lparr>func = printer ''A'', transitions = []\<rparr>" "equals ''go'' (PInt 1)" "printer ''F''" "PInt 1"]
  by (simp add: unstarted_eval lonely_eval accepts_def equals_def printer_def eval_defs guard_calls_def)

section \<open>Sending before starting\<close>

text \<open>
  C8, as the code has it. On a machine whose generator has not run, \<open>send\<close> of any value
  other than \<^verbatim>\<open>None\<close> raises (the \<^verbatim>\<open>TypeError\<close> of a generator that was just
  created; the module has no error of its own for this) and leaves the machine as it was;
  \<open>send\<close> of \<^verbatim>\<open>None\<close> does what \<open>start\<close> does.
\<close>

theorem send_not_started:
  assumes "task_gen m = Created"
  shows "(v \<noteq> PNone \<longrightarrow> send m v = (Some TypeError, m)) \<and> send m PNone = start m"
  using assms by (simp add: send_def start_def gen_send_def)

theorem send_not_started_witness:
  "task_gen unstarted = Created
   \<and> send unstarted (PInt 2) = (Some TypeError, unstarted)
   \<and> send unstarted PNone = start unstarted"
  using send_not_started[of unstarted "PInt 2"]
  by (simp add: unstarted_eval)

text \<open>
  C8 as stated fails at the input \<^verbatim>\<open>None\<close>: with state 0 registered and \<open>start\<close> never
  called, \<^verbatim>\<open>send(None)\<close> returns without an exception, having run the function of
  state 0 and suspended the generator.
\<close>

theorem send_not_started_counterexample:
  "task_gen unstarted = Created
   \<and> send unstarted PNone = (None, unstarted\<lparr>task_gen := Suspended, trace := [Called ''A'' []]\<rparr>)
   \<and> snd (send unstarted PNone) \<noteq> unstarted"
  by (simp add: unstarted_eval eval_defs)

section \<open>The demo\<close>

text \<open>
  C9. The declarations of the demo followed by \<^verbatim>\<open>start(); send(2); send(3); send(0)\<close>
  raise nothing and call the state functions in the order A, B, C, A, leaving the machine
  in state 0; the final \<^verbatim>\<open>send(3)\<close> then raises nothing, calls only the condition of
  the transition from 0 to 1, and leaves the current state 0 and the calls of state
  functions A, B, C, A.
\<close>

theorem demo_run:
  "fst (script demo_calls FSM) = None
   \<and> entry_calls (trace demo) = [Called ''A'' [], Called ''B'' [], Called ''C'' [], Called ''A'' []]
   \<and> current_state demo = 0
   \<and> send demo (PInt 3) = (None, demo\<lparr>trace := trace demo @ [Called ''0->1'' [PInt 3]]\<rparr>)
   \<and> entry_calls (trace (snd (send demo (PInt 3)))) =
        [Called ''A'' [], Called ''B'' [], Called ''C'' [], Called ''A'' []]
   \<and> current_state (snd (send demo (PInt 3))) = 0"
  by (simp add: demo_def demo_script entry_calls_def send_def gen_send_def resume_def to_yield_def
      invoke_def equals_def)

theorem demo_run_witness:
  "current_state (snd (send demo (PInt 3))) = 0 \<and> fst (send demo (PInt 3)) = None"
  using demo_run by simp

section \<open>After a lookup has failed\<close>

text \<open>
  C10. Once \<open>send\<close> has raised \<^verbatim>\<open>KeyError\<close> (the destination of the fired transition,
  or the current state, is not in the registry), the generator is finished, and it stays
  so whatever is called afterwards, registrations included: every later \<open>start\<close> and
  \<open>send\<close> raises \<^verbatim>\<open>StopIteration\<close> and changes nothing, no callback is called again
  and the current-state identifier stays where the failed \<open>send\<close> left it.
\<close>

theorem finished_forever:
  assumes "fst (send m v) = Some KeyError"
  shows "task_gen (snd (send m v)) = Finished
    \<and> (\<forall>cs w.
          start (attempt_all cs (snd (send m v))) =
            (Some StopIteration, attempt_all cs (snd (send m v)))
          \<and> send (attempt_all cs (snd (send m v))) w =
            (Some StopIteration, attempt_all cs (snd (send m v)))
          \<and> trace (attempt_all cs (snd (send m v))) = trace (snd (send m v))
          \<and> current_state (attempt_all cs (snd (send m v))) = current_state (snd (send m v)))"
proof -
  from assms have fin: "task_gen (snd (send m v)) = Finished"
    by (simp add: send_def gen_send_KeyError)
  show ?thesis
    using fin attempt_all_finished[OF fin] finished_stops by blast
qed

theorem finished_forever_witness:
  "fst (send dangling (PInt 1)) = Some KeyError
   \<and> send (attempt_all [AddState (int_obj 5) (Fun (printer ''F'')), Start]
        (snd (send dangling (PInt 1)))) (PInt 1)
      = (Some StopIteration, attempt_all [AddState (int_obj 5) (Fun (printer ''F'')), Start]
        (snd (send dangling (PInt 1))))
   \<and> states (attempt_all [AddState (int_obj 5) (Fun (printer ''F'')), Start]
        (snd (send dangling (PInt 1)))) 5 = Some \<lparr>func = printer ''F'', transitions = []\<rparr>
   \<and> trace (attempt_all [AddState (int_obj 5) (Fun (printer ''F'')), Start]
        (snd (send dangling (PInt 1)))) = [Called ''A'' [], Called ''go'' [PInt 1]]"
proof -
  let ?m = "snd (send dangling (PInt 1))"
  let ?cs = "[AddState (int_obj 5) (Fun (printer ''F'')), Start]"
  have k: "fst (send dangling (PInt 1)) = Some KeyError"
    by (simp add: dangling_eval eval_defs)
  from finished_forever[OF k]
  have a: "send (attempt_all ?cs ?m) (PInt 1) = (Some StopIteration, attempt_all ?cs ?m)"
    and b: "trace (attempt_all ?cs ?m) = trace ?m"
    by blast+
  have s: "states (attempt_all ?cs ?m) 5 = Some \<lparr>func = printer ''F'', transitions = []\<rparr>"
    by (simp add: dangling_eval eval_defs)
  have t: "trace ?m = [Called ''A'' [], Called ''go'' [PInt 1]]"
    by (simp add: dangling_eval eval_defs)
  show ?thesis
    by (intro conjI k a s) (simp only: b t)
qed

end
